theory Spec2Isabelle
  imports Main "HOL-Library.Word"
begin

section \<open>The aiohttp binding of webargs: data model\<close>

text \<open>
  The module \<^verbatim>\<open>webargs/aiohttpparser.py\<close> binds the generic argument parser to the
  request object of one web framework. Python values that travel through it (decoded
  JSON documents, raw field values, the sentinel \<^verbatim>\<open>core.missing\<close>) are values of
  \<open>pyval\<close>; \<open>PNone\<close> is Python's \<^verbatim>\<open>None\<close>, \<open>Missing\<close> is the sentinel object.
  Floats do not occur in any statement below and have no constructor.
\<close>

datatype pyval =
    PNone
  | PBool bool
  | PInt int
  | PStr string
  | PList "pyval list"
  | PDict "(string \<times> pyval) list"
  | Missing

type_synonym bytes = "8 word list"

text \<open>
  A class object: its name, the value that the attribute \<^verbatim>\<open>status_code\<close> resolves to
  on it (\<open>None\<close> is Python's \<^verbatim>\<open>None\<close>) and its direct base classes. An attribute of
  the framework's exception module is a class or some other object.
\<close>

datatype pyclass = PyClass (cname: string) (status_code: "int option") (bases: "pyclass list")

datatype pyobj = Class pyclass | NotAClass

text \<open>\<^verbatim>\<open>issubclass(a, b)\<close> on two classes: \<open>b\<close> is \<open>a\<close> or an ancestor of \<open>a\<close>.\<close>

fun issubclass :: "pyclass \<Rightarrow> pyclass \<Rightarrow> bool" where
  "issubclass (PyClass n sc bs) b = (PyClass n sc bs = b \<or> (\<exists>c \<in> set bs. issubclass c b))"

text \<open>
  Exceptions are values. \<open>HTTPError cls body headers content_type\<close> is an instance of
  the framework exception class \<open>cls\<close> built with these keyword arguments;
  \<open>JSONDecodeError doc\<close> carries the document that failed to decode.
\<close>

datatype error =
    NotImplementedError string
  | LookupError string pyval
  | JSONDecodeError string
  | AssertionError string
  | KeyError string
  | AttributeError string
  | HTTPError pyclass bytes "(string \<times> string) list option" string

text \<open>
  The request as the module reads it: the four synchronous key-value containers, the
  container that \<^verbatim>\<open>await req.post()\<close> resolves to, and what decides the outcome of
  \<^verbatim>\<open>await req.json()\<close> (the body text).
\<close>

record request =
  query :: "(string \<times> pyval) list"
  post :: "(string \<times> pyval) list"
  headers :: "(string \<times> pyval) list"
  cookies :: "(string \<times> pyval) list"
  match_info :: "(string \<times> pyval) list"
  content_type :: string
  body_exists :: bool
  body :: string

text \<open>
  What the module imports and only calls: \<^verbatim>\<open>core.get_value\<close> (with its keyword
  \<^verbatim>\<open>allow_many_nested\<close> as the last argument), \<^verbatim>\<open>core.is_json\<close>, the decoder and
  encoder of the \<^verbatim>\<open>json\<close> library and \<^verbatim>\<open>str.encode("utf-8")\<close>. The statements below
  hold for every choice of them. \<open>json_loads s = None\<close> means that \<open>s\<close> is not a JSON
  document.
\<close>

record 'f env =
  get_value :: "pyval \<Rightarrow> string \<Rightarrow> 'f \<Rightarrow> bool \<Rightarrow> error + pyval"
  is_json :: "string \<Rightarrow> bool"
  json_loads :: "string \<Rightarrow> pyval option"
  json_dumps :: "pyval \<Rightarrow> string"
  encode_utf8 :: "string \<Rightarrow> bytes"

text \<open>
  The framework coroutines the parser can await, and the parser object: the class
  attribute \<^verbatim>\<open>DEFAULT_VALIDATION_STATUS\<close>, the per-request dictionary \<^verbatim>\<open>self._cache\<close>,
  and a ghost field that logs every coroutine awaited, in order.
\<close>

datatype coroutine = ReqPost | ReqJson

record parser =
  DEFAULT_VALIDATION_STATUS :: int
  cache :: "string \<rightharpoonup> pyval"
  awaited :: "coroutine list"

text \<open>\<^verbatim>\<open>d.get(k)\<close>: Python's \<^verbatim>\<open>None\<close> when the key is absent.\<close>

definition cache_get :: "(string \<rightharpoonup> pyval) \<Rightarrow> string \<Rightarrow> pyval" where
  "cache_get d k = (case d k of None \<Rightarrow> PNone | Some v \<Rightarrow> v)"

text \<open>
  The framework's \<^verbatim>\<open>Request.json\<close> coroutine decodes the body text with the JSON
  decoder; a failure is a \<^verbatim>\<open>JSONDecodeError\<close> whose \<^verbatim>\<open>doc\<close> is that text.
\<close>

definition req_json :: "'f env \<Rightarrow> request \<Rightarrow> error + pyval" where
  "req_json env req =
     (case json_loads env (body req) of
        None \<Rightarrow> Inl (JSONDecodeError (body req))
      | Some v \<Rightarrow> Inr v)"

section \<open>The location functions\<close>

definition is_json_request :: "'f env \<Rightarrow> request \<Rightarrow> bool" where
  "is_json_request env req = (let ct = content_type req in is_json env ct)"

definition parse_querystring ::
  "'f env \<Rightarrow> parser \<Rightarrow> request \<Rightarrow> string \<Rightarrow> 'f \<Rightarrow> (error + pyval) \<times> parser" where
  "parse_querystring env self req name field =
     (get_value env (PDict (query req)) name field False, self)"

definition parse_form ::
  "'f env \<Rightarrow> parser \<Rightarrow> request \<Rightarrow> string \<Rightarrow> 'f \<Rightarrow> (error + pyval) \<times> parser" where
  "parse_form env self req name field =
     (let post_data = cache_get (cache self) ''post'';
          self1 = (if post_data = PNone
                   then self\<lparr>cache := (cache self)(''post'' \<mapsto> PDict (post req)),
                             awaited := awaited self @ [ReqPost]\<rparr>
                   else self)
      in case cache self1 ''post'' of
           None \<Rightarrow> (Inl (KeyError ''post''), self1)
         | Some d \<Rightarrow> (get_value env d name field False, self1))"

definition parse_json ::
  "'f env \<Rightarrow> parser \<Rightarrow> request \<Rightarrow> string \<Rightarrow> 'f \<Rightarrow> (error + pyval) \<times> parser" where
  "parse_json env self req name field =
     (let json_data = cache_get (cache self) ''json''
      in if json_data = PNone then
           if \<not> (body_exists req \<and> is_json_request env req) then (Inr Missing, self)
           else
             (let self1 = self\<lparr>awaited := awaited self @ [ReqJson]\<rparr>
              in case req_json env req of
                   Inl (JSONDecodeError doc) \<Rightarrow>
                     if doc = '''' then (Inr Missing, self1)
                     else (Inl (JSONDecodeError doc), self1)
                 | Inl e \<Rightarrow> (Inl e, self1)
                 | Inr json_data1 \<Rightarrow>
                     (get_value env json_data1 name field True,
                      self1\<lparr>cache := (cache self1)(''json'' \<mapsto> json_data1)\<rparr>))
         else (get_value env json_data name field True, self))"

definition parse_headers ::
  "'f env \<Rightarrow> parser \<Rightarrow> request \<Rightarrow> string \<Rightarrow> 'f \<Rightarrow> (error + pyval) \<times> parser" where
  "parse_headers env self req name field =
     (get_value env (PDict (headers req)) name field False, self)"

definition parse_cookies ::
  "'f env \<Rightarrow> parser \<Rightarrow> request \<Rightarrow> string \<Rightarrow> 'f \<Rightarrow> (error + pyval) \<times> parser" where
  "parse_cookies env self req name field =
     (get_value env (PDict (cookies req)) name field False, self)"

definition parse_files ::
  "'f env \<Rightarrow> parser \<Rightarrow> request \<Rightarrow> string \<Rightarrow> 'f \<Rightarrow> (error + pyval) \<times> parser" where
  "parse_files env self req name field =
     (Inl (NotImplementedError
        ''parse_files is not implemented. You may be able to use parse_form for parsing upload data.''),
      self)"

definition parse_match_info ::
  "'f env \<Rightarrow> parser \<Rightarrow> request \<Rightarrow> string \<Rightarrow> 'f \<Rightarrow> (error + pyval) \<times> parser" where
  "parse_match_info env self req name field =
     (get_value env (PDict (match_info req)) name field False, self)"

section \<open>Finding the request among the handler's arguments\<close>

text \<open>
  A positional argument of a handler: a \<^verbatim>\<open>web.Request\<close>, a \<^verbatim>\<open>web.View\<close> (with whatever
  object its attribute \<^verbatim>\<open>request\<close> holds), or anything else (\<^verbatim>\<open>None\<close> included).
\<close>

datatype pyarg = RequestObj request | ViewObj pyarg | OtherObj

text \<open>
  The loop: the variable \<^verbatim>\<open>req\<close> when the loop ends; \<open>None\<close> is Python's \<^verbatim>\<open>None\<close>. The
  loop stops at the first Request or View; for a View it takes the attribute whatever
  it is. The assertion that follows is modelled as always checked.
\<close>

fun find_req :: "pyarg list \<Rightarrow> pyarg option" where
  "find_req [] = None"
| "find_req (RequestObj r # args) = Some (RequestObj r)"
| "find_req (ViewObj a # args) = Some a"
| "find_req (OtherObj # args) = find_req args"

definition get_request_from_view_args :: "'v \<Rightarrow> pyarg list \<Rightarrow> 'k \<Rightarrow> error + request" where
  "get_request_from_view_args view args kwargs =
     (case find_req args of
        Some (RequestObj r) \<Rightarrow> Inr r
      | _ \<Rightarrow> Inl (AssertionError ''Request argument not found for handler''))"

section \<open>The table of exception classes\<close>

text \<open>
  The framework as the module sees it: the names exported by
  \<^verbatim>\<open>web_exceptions.__all__\<close>, the attributes of that module, and the two classes the
  module names directly.
\<close>

record framework =
  exported :: "string list"
  attrs :: "string \<rightharpoonup> pyobj"
  HTTPException :: pyclass
  HTTPClientError :: pyclass

definition HTTPUnprocessableEntity :: "framework \<Rightarrow> pyclass" where
  "HTTPUnprocessableEntity fw =
     PyClass ''HTTPUnprocessableEntity'' (Some 422) [HTTPClientError fw]"

text \<open>
  The body of the loop of \<^verbatim>\<open>_find_exceptions\<close> for one object. On an object that is
  not a class \<^verbatim>\<open>issubclass\<close> raises \<^verbatim>\<open>TypeError\<close>, which the loop catches and reads as
  \<open>False\<close>.
\<close>

definition register :: "framework \<Rightarrow> (int \<rightharpoonup> pyclass) \<Rightarrow> pyobj \<Rightarrow> (int \<rightharpoonup> pyclass)" where
  "register fw exception_map obj =
     (let is_http_exception =
            (case obj of Class c \<Rightarrow> issubclass c (HTTPException fw) | NotAClass \<Rightarrow> False)
      in case obj of
           NotAClass \<Rightarrow> exception_map
         | Class c \<Rightarrow>
             if is_http_exception then
               (case status_code c of
                  None \<Rightarrow> exception_map
                | Some code \<Rightarrow>
                    (case exception_map code of
                       None \<Rightarrow> exception_map(code \<mapsto> c)
                     | Some old_obj \<Rightarrow>
                         if issubclass c old_obj then exception_map
                         else exception_map(code \<mapsto> c)))
             else exception_map)"

text \<open>
  The loop over the exported names. \<^verbatim>\<open>getattr\<close> on a name that the module does not
  have raises \<^verbatim>\<open>AttributeError\<close>, which nothing catches.
\<close>

fun find_exceptions_loop ::
  "framework \<Rightarrow> (int \<rightharpoonup> pyclass) \<Rightarrow> string list \<Rightarrow> error + (int \<rightharpoonup> pyclass)" where
  "find_exceptions_loop fw exception_map [] = Inr exception_map"
| "find_exceptions_loop fw exception_map (name # names) =
     (case attrs fw name of
        None \<Rightarrow> Inl (AttributeError name)
      | Some obj \<Rightarrow> find_exceptions_loop fw (register fw exception_map obj) names)"

text \<open>
  The table when the module has been loaded: the loop run once on the dictionary that
  holds the module's own class for 422.
\<close>

definition find_exceptions :: "framework \<Rightarrow> error + (int \<rightharpoonup> pyclass)" where
  "find_exceptions fw =
     find_exceptions_loop fw [422 \<mapsto> HTTPUnprocessableEntity fw] (exported fw)"

section \<open>Error translation\<close>

text \<open>The validation failure: its structured messages and its attribute \<^verbatim>\<open>status_code\<close>.\<close>

record validation_error =
  messages :: pyval
  err_status_code :: pyval

text \<open>\<^verbatim>\<open>error_status_code or default\<close>: \<^verbatim>\<open>None\<close> and \<^verbatim>\<open>0\<close> are both false in Python.\<close>

definition or_default :: "int option \<Rightarrow> int \<Rightarrow> int" where
  "or_default error_status_code d =
     (case error_status_code of
        None \<Rightarrow> d
      | Some c \<Rightarrow> if c = 0 then d else c)"

definition handle_error ::
  "'f env \<Rightarrow> (int \<rightharpoonup> pyclass) \<Rightarrow> parser \<Rightarrow> validation_error \<Rightarrow> request \<Rightarrow> 's \<Rightarrow>
     int option \<Rightarrow> (string \<times> string) list option \<Rightarrow> error + pyval" where
  "handle_error env exception_map self error req schema error_status_code error_headers =
     (let error_class = exception_map (or_default error_status_code (DEFAULT_VALIDATION_STATUS self))
      in case error_class of
           None \<Rightarrow> Inl (LookupError ''No exception for {0}'' (err_status_code error))
         | Some cls \<Rightarrow>
             (let headers = error_headers
              in Inl (HTTPError cls (encode_utf8 env (json_dumps env (messages error)))
                        headers ''application/json'')))"

section \<open>Sequences of extractions during one request\<close>

text \<open>
  The form and JSON extractions of one request, performed one after the other on the
  same parser object. \<open>run\<close> collects the outcome of each (a value or the exception it
  raised) and the parser after the last; it goes on after an extraction that raised, so
  that its statements cover every caller.
\<close>

datatype 'f extraction = Form string 'f | Json string 'f

fun perform ::
  "'f env \<Rightarrow> parser \<Rightarrow> request \<Rightarrow> 'f extraction \<Rightarrow> (error + pyval) \<times> parser" where
  "perform env self req (Form name field) = parse_form env self req name field"
| "perform env self req (Json name field) = parse_json env self req name field"

fun run ::
  "'f env \<Rightarrow> parser \<Rightarrow> request \<Rightarrow> 'f extraction list \<Rightarrow> (error + pyval) list \<times> parser" where
  "run env self req [] = ([], self)"
| "run env self req (x # xs) =
     (case perform env self req x of
        (r, self1) \<Rightarrow> (case run env self1 req xs of (rs, self2) \<Rightarrow> (r # rs, self2)))"

section \<open>Concrete collaborators and inputs\<close>

text \<open>
  One choice of the imported functions, for the closed instances below: a helper that
  looks the name up in a dictionary, a content-type test, and a decoder that knows
  three documents.
\<close>

definition lookup_value :: "pyval \<Rightarrow> string \<Rightarrow> unit \<Rightarrow> bool \<Rightarrow> error + pyval" where
  "lookup_value data name field allow_many_nested =
     (case data of
        PDict kvs \<Rightarrow> (case map_of kvs name of None \<Rightarrow> Inr Missing | Some v \<Rightarrow> Inr v)
      | _ \<Rightarrow> Inr Missing)"

definition sample_loads :: "string \<Rightarrow> pyval option" where
  "sample_loads s =
     (if s = ''null'' then Some PNone
      else if s = ''[1]'' then Some (PList [PInt 1])
      else if s = ''{}'' then Some (PDict [])
      else None)"

definition sample_env :: "unit env" where
  "sample_env =
     \<lparr>get_value = lookup_value,
      is_json = (\<lambda>ct. ct = ''application/json''),
      json_loads = sample_loads,
      json_dumps = (\<lambda>v. ''{}''),
      encode_utf8 = map (\<lambda>c. of_nat (of_char c))\<rparr>"

definition sample_parser :: parser where
  "sample_parser = \<lparr>DEFAULT_VALIDATION_STATUS = 422, cache = Map.empty, awaited = []\<rparr>"

definition sample_request :: "string \<Rightarrow> string \<Rightarrow> request" where
  "sample_request ct text =
     \<lparr>query = [(''page'', PStr ''2'')],
      post = [(''name'', PStr ''x'')],
      headers = [(''Accept'', PStr ''text/html'')],
      cookies = [(''sid'', PStr ''abc'')],
      match_info = [(''id'', PStr ''7'')],
      content_type = ct,
      body_exists = True,
      body = text\<rparr>"

text \<open>A small framework: three of its exception classes and one exported non-class.\<close>

definition sample_HTTPException :: pyclass where
  "sample_HTTPException = PyClass ''HTTPException'' None [PyClass ''Exception'' None []]"

definition sample_HTTPClientError :: pyclass where
  "sample_HTTPClientError = PyClass ''HTTPClientError'' None [sample_HTTPException]"

definition sample_HTTPNotFound :: pyclass where
  "sample_HTTPNotFound = PyClass ''HTTPNotFound'' (Some 404) [sample_HTTPClientError]"

definition sample_NotFoundPage :: pyclass where
  "sample_NotFoundPage = PyClass ''NotFoundPage'' (Some 404) [sample_HTTPNotFound]"

definition sample_framework :: framework where
  "sample_framework =
     \<lparr>exported = [''HTTPException'', ''HTTPClientError'', ''HTTPNotFound'', ''NotFoundPage'',
                  ''version''],
      attrs = map_of
        [(''HTTPException'', Class sample_HTTPException),
         (''HTTPClientError'', Class sample_HTTPClientError),
         (''HTTPNotFound'', Class sample_HTTPNotFound),
         (''NotFoundPage'', Class sample_NotFoundPage),
         (''version'', NotAClass)],
      HTTPException = sample_HTTPException,
      HTTPClientError = sample_HTTPClientError\<rparr>"

definition sample_error :: validation_error where
  "sample_error =
     \<lparr>messages = PDict [(''name'', PList [PStr ''Missing data for required field.''])],
      err_status_code = PInt 422\<rparr>"

section \<open>File parsing is not supported\<close>

text \<open>
  Claim C6. For every request, field name and field, \<open>parse_files\<close> raises
  \<^verbatim>\<open>NotImplementedError\<close>: it returns no value, the missing sentinel included, and it
  does not touch the parser.
\<close>

theorem parse_files_not_implemented:
  "(\<exists>msg. fst (parse_files env self req name field) = Inl (NotImplementedError msg))
   \<and> (\<forall>v. fst (parse_files env self req name field) \<noteq> Inr v)
   \<and> snd (parse_files env self req name field) = self"
  by (simp add: parse_files_def)

theorem parse_files_not_implemented_witness:
  "(\<exists>msg. fst (parse_files sample_env sample_parser (sample_request ''text/plain'' '''')
             ''avatar'' ()) = Inl (NotImplementedError msg))
   \<and> fst (parse_files sample_env sample_parser (sample_request ''text/plain'' '''')
             ''avatar'' ()) \<noteq> Inr Missing"
  using parse_files_not_implemented
    [of sample_env sample_parser "sample_request ''text/plain'' ''''" "''avatar''" "()"]
  by blast

section \<open>Query string, headers, cookies and path parameters\<close>

text \<open>
  Claim C7. Each of \<open>parse_querystring\<close>, \<open>parse_headers\<close>, \<open>parse_cookies\<close> and
  \<open>parse_match_info\<close> returns exactly what the core helper returns on the matching
  container of the request, called without \<^verbatim>\<open>allow_many_nested\<close>, and hands the parser
  back as it was (the request is only read). Whenever the helper gives the stored value
  for a present key and the missing sentinel for an absent one, so does each of the four
  operations.
\<close>

theorem simple_locations_delegate:
  "parse_querystring env self req name field
     = (get_value env (PDict (query req)) name field False, self)
   \<and> parse_headers env self req name field
     = (get_value env (PDict (headers req)) name field False, self)
   \<and> parse_cookies env self req name field
     = (get_value env (PDict (cookies req)) name field False, self)
   \<and> parse_match_info env self req name field
     = (get_value env (PDict (match_info req)) name field False, self)
   \<and> ((\<forall>kvs. get_value env (PDict kvs) name field False
            = (case map_of kvs name of None \<Rightarrow> Inr Missing | Some v \<Rightarrow> Inr v)) \<longrightarrow>
        fst (parse_querystring env self req name field)
          = (case map_of (query req) name of None \<Rightarrow> Inr Missing | Some v \<Rightarrow> Inr v)
      \<and> fst (parse_headers env self req name field)
          = (case map_of (headers req) name of None \<Rightarrow> Inr Missing | Some v \<Rightarrow> Inr v)
      \<and> fst (parse_cookies env self req name field)
          = (case map_of (cookies req) name of None \<Rightarrow> Inr Missing | Some v \<Rightarrow> Inr v)
      \<and> fst (parse_match_info env self req name field)
          = (case map_of (match_info req) name of None \<Rightarrow> Inr Missing | Some v \<Rightarrow> Inr v))"
  by (simp add: parse_querystring_def parse_headers_def parse_cookies_def parse_match_info_def)

theorem simple_locations_delegate_witness:
  "parse_querystring sample_env sample_parser (sample_request ''text/plain'' '''') ''sid'' ()
     = (Inr Missing, sample_parser)
   \<and> parse_cookies sample_env sample_parser (sample_request ''text/plain'' '''') ''sid'' ()
     = (Inr (PStr ''abc''), sample_parser)"
proof -
  have helper: "\<forall>kvs. get_value sample_env (PDict kvs) ''sid'' () False
            = (case map_of kvs ''sid'' of None \<Rightarrow> Inr Missing | Some v \<Rightarrow> Inr v)"
    by (simp add: sample_env_def lookup_value_def)
  from helper simple_locations_delegate
    [of sample_env sample_parser "sample_request ''text/plain'' ''''" "''sid''" "()"]
  show ?thesis
    by (simp add: sample_request_def prod_eq_iff)
qed

section \<open>The request among the handler's arguments\<close>

lemma find_req_skips_others:
  "\<forall>a \<in> set pre. a = OtherObj \<Longrightarrow> find_req (pre @ rest) = find_req rest"
  by (induction pre) auto

text \<open>
  Claim C9. \<open>get_request_from_view_args\<close> scans the positional arguments in order. When
  the first argument that is a Request or a View is a Request, it is returned; when it
  is a View whose attribute \<^verbatim>\<open>request\<close> is a Request, that request is returned; when it
  is a View whose attribute is no Request, or when no argument is a Request or a View,
  the assertion fails. The result is never \<^verbatim>\<open>None\<close>: it is a request or the raised
  \<^verbatim>\<open>AssertionError\<close>.
\<close>

theorem get_request_first_request_or_view:
  "((\<forall>a \<in> set pre. a = OtherObj) \<longrightarrow>
       get_request_from_view_args view (pre @ RequestObj r # rest) kwargs = Inr r
     \<and> get_request_from_view_args view (pre @ ViewObj (RequestObj r) # rest) kwargs = Inr r
     \<and> ((\<forall>r'. attr \<noteq> RequestObj r') \<longrightarrow>
          get_request_from_view_args view (pre @ ViewObj attr # rest) kwargs
            = Inl (AssertionError ''Request argument not found for handler''))
     \<and> get_request_from_view_args view pre kwargs
          = Inl (AssertionError ''Request argument not found for handler''))
   \<and> ((\<exists>r'. get_request_from_view_args view args kwargs = Inr r')
        \<or> get_request_from_view_args view args kwargs
            = Inl (AssertionError ''Request argument not found for handler''))"
proof -
  have "find_req pre = None" if "\<forall>a \<in> set pre. a = OtherObj"
    using find_req_skips_others[OF that, of "[]"] by simp
  then show ?thesis
    by (auto simp: get_request_from_view_args_def find_req_skips_others
        split: option.splits pyarg.splits)
qed

theorem get_request_first_request_or_view_witness:
  "get_request_from_view_args () [OtherObj, RequestObj (sample_request ''a'' ''b''),
       ViewObj OtherObj] () = Inr (sample_request ''a'' ''b'')
   \<and> get_request_from_view_args () [OtherObj, ViewObj (RequestObj (sample_request ''a'' ''b'')),
       RequestObj (sample_request ''c'' ''d'')] () = Inr (sample_request ''a'' ''b'')
   \<and> get_request_from_view_args () [OtherObj, ViewObj (ViewObj OtherObj),
       RequestObj (sample_request ''c'' ''d'')] ()
       = Inl (AssertionError ''Request argument not found for handler'')
   \<and> get_request_from_view_args () [OtherObj] ()
       = Inl (AssertionError ''Request argument not found for handler'')"
proof -
  have pre: "\<forall>a \<in> set [OtherObj]. a = OtherObj" by simp
  have view: "\<forall>r'. ViewObj OtherObj \<noteq> RequestObj r'" by simp
  from pre view
    get_request_first_request_or_view
      [of "[OtherObj]" "()" "sample_request ''a'' ''b''" "[ViewObj OtherObj]" "()"
          "ViewObj OtherObj" "[]"]
    get_request_first_request_or_view
      [of "[OtherObj]" "()" "sample_request ''a'' ''b''"
          "[RequestObj (sample_request ''c'' ''d'')]" "()" "ViewObj OtherObj" "[]"]
  show ?thesis by simp
qed

section \<open>Error translation\<close>

text \<open>
  The registration step puts a class under the key \<open>0\<close> only when an exported class
  has the status code \<open>0\<close>; HTTP status codes are not \<open>0\<close>, so the table it builds
  has no such key.
\<close>

lemma register_no_zero:
  "em 0 = None \<Longrightarrow> \<forall>c. obj = Class c \<longrightarrow> status_code c \<noteq> Some 0 \<Longrightarrow>
   register fw em obj 0 = None"
  by (cases obj) (auto simp: register_def Let_def split: option.splits)

lemma find_exceptions_loop_no_zero:
  "em 0 = None \<Longrightarrow>
   \<forall>n \<in> set names. \<forall>c. attrs fw n = Some (Class c) \<longrightarrow> status_code c \<noteq> Some 0 \<Longrightarrow>
   find_exceptions_loop fw em names = Inr em' \<Longrightarrow> em' 0 = None"
proof (induction names arbitrary: em)
  case Nil
  then show ?case by simp
next
  case (Cons name names)
  from Cons.prems(3) obtain obj where obj: "attrs fw name = Some obj"
    and loop: "find_exceptions_loop fw (register fw em obj) names = Inr em'"
    by (auto split: option.splits)
  from Cons.prems(2) obj have "\<forall>c. obj = Class c \<longrightarrow> status_code c \<noteq> Some 0"
    by simp
  with Cons.prems(1) have zero: "register fw em obj 0 = None"
    by (rule register_no_zero)
  from Cons.prems(2)
  have "\<forall>n \<in> set names. \<forall>c. attrs fw n = Some (Class c) \<longrightarrow> status_code c \<noteq> Some 0"
    by simp
  with zero show ?case using loop by (rule Cons.IH)
qed

lemma find_exceptions_no_zero:
  "\<forall>n \<in> set (exported fw). \<forall>c. attrs fw n = Some (Class c) \<longrightarrow> status_code c \<noteq> Some 0 \<Longrightarrow>
   find_exceptions fw = Inr em \<Longrightarrow> em 0 = None"
  unfolding find_exceptions_def
  by (rule find_exceptions_loop_no_zero[where em = "[422 \<mapsto> HTTPUnprocessableEntity fw]"])
    simp_all

text \<open>
  Claim C1. Take a table that registers no class under \<open>0\<close>, as every table of the
  registration step is. For every validation failure, status code and optional headers,
  \<open>handle_error\<close> raises an instance of the class that the table registers for that
  code, and of the class registered for the default code when no code is given. The
  instance carries the JSON encoding of the failure's messages, encoded as UTF-8, the
  given headers and the content type \<^verbatim>\<open>application/json\<close>. (The code is chosen by
  \<^verbatim>\<open>error_status_code or self.DEFAULT_VALIDATION_STATUS\<close>; a given code of \<open>0\<close> has no
  class registered and is the matter of the next claim.)
\<close>

theorem handle_error_raises_registered_class:
  assumes "exception_map 0 = None"
  shows "(exception_map (DEFAULT_VALIDATION_STATUS self) = Some cls \<longrightarrow>
      handle_error env exception_map self error req schema None error_headers
        = Inl (HTTPError cls (encode_utf8 env (json_dumps env (messages error)))
                 error_headers ''application/json''))
   \<and> (exception_map c = Some cls \<longrightarrow>
      handle_error env exception_map self error req schema (Some c) error_headers
        = Inl (HTTPError cls (encode_utf8 env (json_dumps env (messages error)))
                 error_headers ''application/json''))"
proof -
  have "c \<noteq> 0" if "exception_map c = Some cls"
    using that assms by auto
  then show ?thesis
    by (auto simp: handle_error_def or_default_def)
qed

theorem handle_error_raises_registered_class_witness:
  "find_exceptions sample_framework
     = Inr [422 \<mapsto> HTTPUnprocessableEntity sample_framework, 404 \<mapsto> sample_HTTPNotFound]
   \<and> handle_error sample_env [422 \<mapsto> HTTPUnprocessableEntity sample_framework,
        404 \<mapsto> sample_HTTPNotFound] sample_parser sample_error
        (sample_request ''text/plain'' '''') () None (Some [(''X-Reason'', ''invalid'')])
     = Inl (HTTPError (HTTPUnprocessableEntity sample_framework)
              (encode_utf8 sample_env (json_dumps sample_env (messages sample_error)))
              (Some [(''X-Reason'', ''invalid'')]) ''application/json'')
   \<and> handle_error sample_env [422 \<mapsto> HTTPUnprocessableEntity sample_framework,
        404 \<mapsto> sample_HTTPNotFound] sample_parser sample_error
        (sample_request ''text/plain'' '''') () (Some 404) None
     = Inl (HTTPError sample_HTTPNotFound
              (encode_utf8 sample_env (json_dumps sample_env (messages sample_error)))
              None ''application/json'')"
proof -
  have table: "find_exceptions sample_framework
     = Inr [422 \<mapsto> HTTPUnprocessableEntity sample_framework, 404 \<mapsto> sample_HTTPNotFound]"
    by (simp add: find_exceptions_def register_def sample_framework_def
        HTTPUnprocessableEntity_def sample_HTTPNotFound_def sample_NotFoundPage_def
        sample_HTTPClientError_def sample_HTTPException_def)
  have zero: "[422 \<mapsto> HTTPUnprocessableEntity sample_framework, 404 \<mapsto> sample_HTTPNotFound]
      (0::int) = None"
    by simp
  from table
    handle_error_raises_registered_class
      [of "[422 \<mapsto> HTTPUnprocessableEntity sample_framework, 404 \<mapsto> sample_HTTPNotFound]"
          sample_parser "HTTPUnprocessableEntity sample_framework" sample_env
          sample_error "sample_request ''text/plain'' ''''" "()"
          "Some [(''X-Reason'', ''invalid'')]" 404, OF zero]
    handle_error_raises_registered_class
      [of "[422 \<mapsto> HTTPUnprocessableEntity sample_framework, 404 \<mapsto> sample_HTTPNotFound]"
          sample_parser sample_HTTPNotFound sample_env sample_error
          "sample_request ''text/plain'' ''''" "()" None 404, OF zero]
  show ?thesis by (simp add: sample_parser_def)
qed

text \<open>
  Claim C4, as the code has it. When the code that \<open>handle_error\<close> looks up has no class
  in the table, \<open>handle_error\<close> raises \<^verbatim>\<open>LookupError\<close>, which is no HTTP error response,
  and returns nothing. The code looked up is the given code when one is given and is not
  \<open>0\<close>, and the default code otherwise: a given code of \<open>0\<close> counts as not given.
\<close>

theorem handle_error_unregistered_code:
  "((error_status_code = None \<or> error_status_code = Some 0)
      \<and> exception_map (DEFAULT_VALIDATION_STATUS self) = None \<longrightarrow>
      handle_error env exception_map self error req schema error_status_code error_headers
        = Inl (LookupError ''No exception for {0}'' (err_status_code error)))
   \<and> (c \<noteq> 0 \<and> exception_map c = None \<longrightarrow>
      handle_error env exception_map self error req schema (Some c) error_headers
        = Inl (LookupError ''No exception for {0}'' (err_status_code error)))
   \<and> (\<forall>v. handle_error env exception_map self error req schema error_status_code error_headers
          \<noteq> Inr v)"
  by (auto simp: handle_error_def or_default_def Let_def split: option.splits)

theorem handle_error_unregistered_code_witness:
  "handle_error sample_env [422 \<mapsto> HTTPUnprocessableEntity sample_framework] sample_parser
       sample_error (sample_request ''text/plain'' '''') () (Some 499) None
     = Inl (LookupError ''No exception for {0}'' (PInt 422))
   \<and> handle_error sample_env Map.empty sample_parser
       sample_error (sample_request ''text/plain'' '''') () (Some 0) None
     = Inl (LookupError ''No exception for {0}'' (PInt 422))"
  using
    handle_error_unregistered_code
      [of None "[422 \<mapsto> HTTPUnprocessableEntity sample_framework]" sample_parser
          sample_env sample_error "sample_request ''text/plain'' ''''" "()" None 499]
    handle_error_unregistered_code
      [of "Some 0" Map.empty sample_parser
          sample_env sample_error "sample_request ''text/plain'' ''''" "()" None 499]
  by (simp add: sample_error_def)

text \<open>
  The claim as it was written fails at the given code \<open>0\<close>: the table that holds only
  the entry for 422 registers nothing for \<open>0\<close>, and \<open>handle_error\<close> answers with the
  HTTP error of the class registered for the default code.
\<close>

theorem handle_error_code_zero_counterexample:
  "[422 \<mapsto> HTTPUnprocessableEntity sample_framework] (0::int) = None
   \<and> handle_error sample_env [422 \<mapsto> HTTPUnprocessableEntity sample_framework] sample_parser
       sample_error (sample_request ''text/plain'' '''') () (Some 0) None
     = Inl (HTTPError (HTTPUnprocessableEntity sample_framework)
              (encode_utf8 sample_env (json_dumps sample_env (messages sample_error)))
              None ''application/json'')"
  by (simp add: handle_error_def or_default_def sample_parser_def)

section \<open>Form and JSON bodies\<close>

lemma run_Cons:
  "run env self req (x # xs) =
     (fst (perform env self req x) # fst (run env (snd (perform env self req x)) req xs),
      snd (run env (snd (perform env self req x)) req xs))"
  by (simp add: case_prod_beta)

lemma length_run: "length (fst (run env self req ops)) = length ops"
  by (induction ops arbitrary: self) (simp_all add: run_Cons del: run.simps(2))

lemma parse_form_keeps_json:
  "cache (snd (parse_form env self req name field)) ''json'' = cache self ''json''"
  by (simp add: parse_form_def Let_def split: option.splits)

text \<open>
  A request whose JSON document cannot be had: no body, a content type that is not JSON,
  or a body that does not decode. While no document is memoised, every JSON extraction
  has the same outcome and leaves the cache as it is.
\<close>

lemma parse_json_no_document:
  assumes "\<not> (body_exists req \<and> is_json env (content_type req)) \<or> json_loads env (body req) = None"
    and "cache_get (cache self) ''json'' = PNone"
  shows "fst (parse_json env self req name field)
           = (if body_exists req \<and> is_json env (content_type req) \<and> body req \<noteq> ''''
              then Inl (JSONDecodeError (body req)) else Inr Missing)"
    and "cache (snd (parse_json env self req name field)) = cache self"
  using assms
  by (auto simp: parse_json_def req_json_def is_json_request_def Let_def
      split: option.splits sum.splits error.splits)

lemma run_no_document:
  assumes "\<not> (body_exists req \<and> is_json env (content_type req)) \<or> json_loads env (body req) = None"
  shows "cache_get (cache self) ''json'' = PNone \<Longrightarrow> i < length ops \<Longrightarrow>
     ops ! i = Json name field \<Longrightarrow>
     fst (run env self req ops) ! i
       = (if body_exists req \<and> is_json env (content_type req) \<and> body req \<noteq> ''''
          then Inl (JSONDecodeError (body req)) else Inr Missing)"
proof (induction ops arbitrary: self i)
  case Nil
  then show ?case by simp
next
  case (Cons x xs)
  have keep: "cache_get (cache (snd (perform env self req x))) ''json'' = PNone"
  proof (cases x)
    case (Form n f)
    then show ?thesis
      using Cons.prems(1) parse_form_keeps_json[of env self req n f]
      by (simp add: cache_get_def)
  next
    case (Json n f)
    then show ?thesis
      using Cons.prems(1) parse_json_no_document(2)[OF assms Cons.prems(1), of n f]
      by simp
  qed
  show ?case
  proof (cases i)
    case 0
    with Cons.prems have "x = Json name field" by simp
    with 0 parse_json_no_document(1)[OF assms Cons.prems(1), of name field]
    show ?thesis by (simp add: run_Cons del: run.simps(2))
  next
    case (Suc j)
    with Cons.prems have "j < length xs" "xs ! j = Json name field" by simp_all
    from Cons.IH[OF keep this] Suc show ?thesis
      by (simp add: run_Cons del: run.simps(2))
  qed
qed

text \<open>
  Claim C3. Take a request whose body is absent or empty, or whose content type is not a
  JSON content type, and any sequence of form and JSON extractions that starts with no
  JSON document memoised. Every JSON extraction of the sequence, for every field name,
  returns the missing sentinel and raises nothing. (The JSON decoder rejects the empty
  document.)
\<close>

theorem parse_json_missing_without_document:
  assumes "json_loads env '''' = None"
    and "\<not> body_exists req \<or> body req = '''' \<or> \<not> is_json env (content_type req)"
    and "cache_get (cache self) ''json'' = PNone"
    and "i < length ops" and "ops ! i = Json name field"
  shows "fst (run env self req ops) ! i = Inr Missing"
proof -
  from assms(1,2) have
    "\<not> (body_exists req \<and> is_json env (content_type req)) \<or> json_loads env (body req) = None"
    by auto
  from run_no_document[OF this assms(3,4,5)] assms(2) show ?thesis by auto
qed

theorem parse_json_missing_without_document_witness:
  "fst (run sample_env sample_parser (sample_request ''application/json'' '''')
          [Json ''a'' (), Form ''name'' (), Json ''b'' ()]) ! 2 = Inr Missing
   \<and> fst (run sample_env sample_parser (sample_request ''text/plain'' ''[1]'')
          [Json ''a'' (), Form ''name'' (), Json ''b'' ()]) ! 0 = Inr Missing"
proof -
  have "fst (run sample_env sample_parser (sample_request ''application/json'' '''')
          [Json ''a'' (), Form ''name'' (), Json ''b'' ()]) ! 2 = Inr Missing"
    by (rule parse_json_missing_without_document [where name = "''b''" and field = "()"])
      (simp_all add: sample_env_def sample_loads_def sample_parser_def sample_request_def
        cache_get_def)
  moreover
  have "fst (run sample_env sample_parser (sample_request ''text/plain'' ''[1]'')
          [Json ''a'' (), Form ''name'' (), Json ''b'' ()]) ! 0 = Inr Missing"
    by (rule parse_json_missing_without_document [where name = "''a''" and field = "()"])
      (simp_all add: sample_env_def sample_loads_def sample_parser_def sample_request_def
        cache_get_def)
  ultimately show ?thesis by simp
qed

text \<open>
  Claim C8. Take a request whose body exists, whose content type is a JSON content type
  and whose body is not a JSON document, and any sequence of form and JSON extractions
  that starts with no JSON document memoised. When the body is not empty, every JSON
  extraction of the sequence raises the decode error of that body; the missing sentinel
  is the outcome only when the body is empty.
\<close>

theorem parse_json_reraises_decode_error:
  assumes "body_exists req" and "is_json env (content_type req)"
    and "json_loads env (body req) = None"
    and "cache_get (cache self) ''json'' = PNone"
    and "i < length ops" and "ops ! i = Json name field"
  shows "(body req \<noteq> '''' \<longrightarrow>
            fst (run env self req ops) ! i = Inl (JSONDecodeError (body req)))
         \<and> (fst (run env self req ops) ! i = Inr Missing \<longleftrightarrow> body req = '''')"
proof -
  from assms(3) have
    "\<not> (body_exists req \<and> is_json env (content_type req)) \<or> json_loads env (body req) = None"
    by simp
  from run_no_document[OF this assms(4,5,6)] assms(1,2) show ?thesis by auto
qed

theorem parse_json_reraises_decode_error_witness:
  "fst (run sample_env sample_parser (sample_request ''application/json'' ''[1,'')
          [Form ''name'' (), Json ''a'' ()]) ! 1 = Inl (JSONDecodeError ''[1,'')
   \<and> fst (run sample_env sample_parser (sample_request ''application/json'' ''[1,'')
          [Form ''name'' (), Json ''a'' ()]) ! 1 \<noteq> Inr Missing"
proof -
  have "(body (sample_request ''application/json'' ''[1,'') \<noteq> '''' \<longrightarrow>
      fst (run sample_env sample_parser (sample_request ''application/json'' ''[1,'')
          [Form ''name'' (), Json ''a'' ()]) ! 1
        = Inl (JSONDecodeError (body (sample_request ''application/json'' ''[1,''))))
    \<and> (fst (run sample_env sample_parser (sample_request ''application/json'' ''[1,'')
          [Form ''name'' (), Json ''a'' ()]) ! 1 = Inr Missing
        \<longleftrightarrow> body (sample_request ''application/json'' ''[1,'') = '''')"
    by (rule parse_json_reraises_decode_error [where name = "''a''" and field = "()"])
      (simp_all add: sample_env_def sample_loads_def sample_parser_def sample_request_def
        cache_get_def)
  then show ?thesis by (simp add: sample_request_def)
qed

text \<open>
  Claim C2, at the input where the code departs from it. The body of the request is the
  JSON document \<^verbatim>\<open>null\<close>. The first JSON extraction awaits the framework's coroutine,
  which succeeds with \<^verbatim>\<open>None\<close>; the memo then holds \<^verbatim>\<open>None\<close>, which the test
  \<^verbatim>\<open>json_data is None\<close> cannot tell from an empty memo, and the second JSON extraction
  awaits the coroutine again.
\<close>

theorem parse_json_null_document_awaited_twice:
  "req_json sample_env (sample_request ''application/json'' ''null'') = Inr PNone
   \<and> awaited (snd (run sample_env sample_parser (sample_request ''application/json'' ''null'')
        [Json ''a'' (), Json ''b'' ()])) = [ReqJson, ReqJson]"
  by (simp add: req_json_def sample_env_def sample_loads_def sample_parser_def
      sample_request_def parse_json_def is_json_request_def cache_get_def lookup_value_def)

subsection \<open>What the memo does guarantee\<close>

lemma parse_form_effect:
  "awaited (snd (parse_form env self req name field))
     = awaited self @ (if cache_get (cache self) ''post'' = PNone then [ReqPost] else [])"
  "cache_get (cache (snd (parse_form env self req name field))) ''post'' \<noteq> PNone"
  "cache_get (cache (snd (parse_form env self req name field))) ''json''
     = cache_get (cache self) ''json''"
  by (simp_all add: parse_form_def Let_def cache_get_def split: option.splits)

lemma parse_json_effect:
  assumes "json_loads env (body req) = Some v" and "v \<noteq> PNone"
  shows "awaited (snd (parse_json env self req name field))
     = awaited self @ (if cache_get (cache self) ''json'' = PNone
                        \<and> body_exists req \<and> is_json env (content_type req)
                       then [ReqJson] else [])"
    and "cache_get (cache self) ''json'' \<noteq> PNone \<or> \<not> (body_exists req \<and> is_json env (content_type req))
       \<Longrightarrow> snd (parse_json env self req name field) = self"
    and "body_exists req \<and> is_json env (content_type req) \<Longrightarrow>
       cache_get (cache (snd (parse_json env self req name field))) ''json'' \<noteq> PNone"
    and "cache_get (cache (snd (parse_json env self req name field))) ''post''
       = cache_get (cache self) ''post''"
  using assms
  by (auto simp: parse_json_def req_json_def is_json_request_def Let_def cache_get_def
      split: option.splits)

lemma parse_json_awaits_only_json:
  "count_list (awaited (snd (parse_json env self req name field))) ReqPost
     = count_list (awaited self) ReqPost"
  "cache_get (cache (snd (parse_json env self req name field))) ''post''
     = cache_get (cache self) ''post''"
  by (auto simp: parse_json_def req_json_def Let_def cache_get_def
      split: option.splits sum.splits error.splits)

text \<open>
  The form body is awaited at most once in every sequence of extractions, and not at
  all once it is memoised.
\<close>

lemma form_awaited_at_most_once:
  "count_list (awaited (snd (run env self req ops))) ReqPost
     \<le> count_list (awaited self) ReqPost
        + (if cache_get (cache self) ''post'' = PNone then 1 else 0)"
proof (induction ops arbitrary: self)
  case Nil
  then show ?case by simp
next
  case (Cons x xs)
  show ?case
  proof (cases x)
    case (Form n f)
    from Cons.IH[of "snd (parse_form env self req n f)"] Form show ?thesis
      by (simp add: run_Cons parse_form_effect del: run.simps(2) split: if_splits)
  next
    case (Json n f)
    from Cons.IH[of "snd (parse_json env self req n f)"] Json show ?thesis
      by (simp add: run_Cons parse_json_awaits_only_json del: run.simps(2))
  qed
qed

text \<open>
  The JSON body is awaited at most once in every sequence of extractions when it
  decodes to a document other than \<^verbatim>\<open>null\<close>.
\<close>

lemma json_awaited_at_most_once:
  assumes "json_loads env (body req) = Some v" and "v \<noteq> PNone"
  shows "count_list (awaited (snd (run env self req ops))) ReqJson
     \<le> count_list (awaited self) ReqJson
        + (if cache_get (cache self) ''json'' = PNone then 1 else 0)"
proof (induction ops arbitrary: self)
  case Nil
  then show ?case by simp
next
  case (Cons x xs)
  show ?case
  proof (cases x)
    case (Form n f)
    from Cons.IH[of "snd (parse_form env self req n f)"] Form show ?thesis
      by (simp add: run_Cons parse_form_effect del: run.simps(2) split: if_splits)
  next
    case (Json n f)
    show ?thesis
    proof (cases "cache_get (cache self) ''json'' = PNone
        \<and> body_exists req \<and> is_json env (content_type req)")
      case True
      with parse_json_effect(1,3)[OF assms, of self n f]
        Cons.IH[of "snd (parse_json env self req n f)"] Json
      show ?thesis by (simp add: run_Cons del: run.simps(2))
    next
      case False
      then have "snd (parse_json env self req n f) = self"
        using parse_json_effect(2)[OF assms, of self] by blast
      with Cons.IH[of self] Json show ?thesis
        by (simp add: run_Cons del: run.simps(2))
    qed
  qed
qed

section \<open>The table after the registration step\<close>

lemma register_keeps_keys: "em k \<noteq> None \<Longrightarrow> register fw em obj k \<noteq> None"
  by (auto simp: register_def Let_def split: pyobj.splits option.splits)

lemma register_adds_key:
  "issubclass c (HTTPException fw) \<Longrightarrow> status_code c = Some k \<Longrightarrow>
   register fw em (Class c) k \<noteq> None"
  by (auto simp: register_def Let_def split: option.splits)

lemma find_exceptions_loop_keys:
  "\<forall>n \<in> set names. attrs fw n \<noteq> None \<Longrightarrow>
   \<exists>em'. find_exceptions_loop fw em names = Inr em'
     \<and> (\<forall>k. em k \<noteq> None \<longrightarrow> em' k \<noteq> None)
     \<and> (\<forall>n c k. n \<in> set names \<and> attrs fw n = Some (Class c)
            \<and> issubclass c (HTTPException fw) \<and> status_code c = Some k \<longrightarrow> em' k \<noteq> None)"
proof (induction names arbitrary: em)
  case Nil
  then show ?case by simp
next
  case (Cons name names)
  then obtain obj where obj: "attrs fw name = Some obj" by auto
  from Cons.prems have "\<forall>n \<in> set names. attrs fw n \<noteq> None" by simp
  from Cons.IH[OF this, of "register fw em obj"] obtain em' where
    loop: "find_exceptions_loop fw (register fw em obj) names = Inr em'"
    and mono: "\<forall>k. register fw em obj k \<noteq> None \<longrightarrow> em' k \<noteq> None"
    and rest: "\<forall>n c k. n \<in> set names \<and> attrs fw n = Some (Class c)
            \<and> issubclass c (HTTPException fw) \<and> status_code c = Some k \<longrightarrow> em' k \<noteq> None"
    by blast
  have 1: "find_exceptions_loop fw em (name # names) = Inr em'"
    using obj loop by simp
  have 2: "\<forall>k. em k \<noteq> None \<longrightarrow> em' k \<noteq> None"
    using mono register_keeps_keys by blast
  have 3: "em' k \<noteq> None"
    if "n \<in> set (name # names)" "attrs fw n = Some (Class c)"
      "issubclass c (HTTPException fw)" "status_code c = Some k" for n c k
  proof (cases "n = name")
    case True
    with that obj have "obj = Class c" by simp
    with that mono register_adds_key show ?thesis by blast
  next
    case False
    with that rest show ?thesis by auto
  qed
  from 1 2 3 show ?case by blast
qed

lemma register_entries:
  "\<forall>k c. em k = Some c \<longrightarrow> issubclass c (HTTPException fw) \<and> status_code c = Some k \<Longrightarrow>
   register fw em obj k = Some c \<Longrightarrow>
   issubclass c (HTTPException fw) \<and> status_code c = Some k"
  by (cases obj) (auto simp: register_def Let_def split: if_splits option.splits)

lemma find_exceptions_loop_entries:
  "\<forall>k c. em k = Some c \<longrightarrow> issubclass c (HTTPException fw) \<and> status_code c = Some k \<Longrightarrow>
   find_exceptions_loop fw em names = Inr em' \<Longrightarrow>
   \<forall>k c. em' k = Some c \<longrightarrow> issubclass c (HTTPException fw) \<and> status_code c = Some k"
proof (induction names arbitrary: em)
  case Nil
  then show ?case by simp
next
  case (Cons name names)
  from Cons.prems(2) obtain obj where obj: "attrs fw name = Some obj"
    and loop: "find_exceptions_loop fw (register fw em obj) names = Inr em'"
    by (auto split: option.splits)
  have "\<forall>k c. register fw em obj k = Some c \<longrightarrow>
          issubclass c (HTTPException fw) \<and> status_code c = Some k"
    using register_entries[OF Cons.prems(1)] by blast
  from Cons.IH[OF this loop] show ?case .
qed

lemma register_subclass_skipped:
  "status_code c = Some k \<Longrightarrow> em k = Some old \<Longrightarrow> issubclass c old \<Longrightarrow>
   register fw em (Class c) = em"
  by (auto simp: register_def Let_def)

text \<open>
  Claim C5. When every exported name is an attribute of the framework's module, the
  registration step completes, and for every exported name that denotes a subclass of
  the framework's HTTP exception class with a status code other than \<^verbatim>\<open>None\<close>, the
  table has an entry for that status code.
\<close>

theorem exported_status_codes_registered:
  assumes "\<forall>n \<in> set (exported fw). attrs fw n \<noteq> None"
  shows "\<exists>em. find_exceptions fw = Inr em
     \<and> (\<forall>n c k. n \<in> set (exported fw) \<and> attrs fw n = Some (Class c)
            \<and> issubclass c (HTTPException fw) \<and> status_code c = Some k \<longrightarrow> em k \<noteq> None)"
  using find_exceptions_loop_keys[OF assms, of "[422 \<mapsto> HTTPUnprocessableEntity fw]"]
  unfolding find_exceptions_def by blast

theorem exported_status_codes_registered_witness:
  "\<exists>em. find_exceptions sample_framework = Inr em \<and> em 404 \<noteq> None"
proof -
  have "\<forall>n \<in> set (exported sample_framework). attrs sample_framework n \<noteq> None"
    by (simp add: sample_framework_def)
  from exported_status_codes_registered[OF this] obtain em where
    em: "find_exceptions sample_framework = Inr em"
    and reg: "\<forall>n c k. n \<in> set (exported sample_framework)
            \<and> attrs sample_framework n = Some (Class c)
            \<and> issubclass c (HTTPException sample_framework) \<and> status_code c = Some k
            \<longrightarrow> em k \<noteq> None"
    by blast
  have "''HTTPNotFound'' \<in> set (exported sample_framework)
      \<and> attrs sample_framework ''HTTPNotFound'' = Some (Class sample_HTTPNotFound)
      \<and> issubclass sample_HTTPNotFound (HTTPException sample_framework)
      \<and> status_code sample_HTTPNotFound = Some 404"
    by (simp add: sample_framework_def sample_HTTPNotFound_def sample_HTTPClientError_def
        sample_HTTPException_def)
  with reg have "em 404 \<noteq> None" by blast
  with em show ?thesis by blast
qed

text \<open>
  Claim C10. When every exported name is an attribute of the framework's module and the
  framework's client-error class is an HTTP exception class, the registration step
  completes and every entry of the table is a subclass of the framework's HTTP exception
  class whose status code is the key. During the step, a class whose status code already
  has an entry and that is a subclass of the registered class leaves the table as it is.
\<close>

theorem table_entries_match_their_key:
  assumes "\<forall>n \<in> set (exported fw). attrs fw n \<noteq> None"
    and "issubclass (HTTPClientError fw) (HTTPException fw)"
  shows "(\<exists>em. find_exceptions fw = Inr em
            \<and> (\<forall>k c. em k = Some c \<longrightarrow>
                  issubclass c (HTTPException fw) \<and> status_code c = Some k))
     \<and> (\<forall>em name names c k old.
           attrs fw name = Some (Class c) \<and> status_code c = Some k
           \<and> em k = Some old \<and> issubclass c old \<longrightarrow>
           register fw em (Class c) = em
           \<and> find_exceptions_loop fw em (name # names) = find_exceptions_loop fw em names)"
proof -
  obtain em where em: "find_exceptions fw = Inr em"
    using find_exceptions_loop_keys[OF assms(1), of "[422 \<mapsto> HTTPUnprocessableEntity fw]"]
    unfolding find_exceptions_def by blast
  have "\<forall>k c. [422 \<mapsto> HTTPUnprocessableEntity fw] k = Some c \<longrightarrow>
          issubclass c (HTTPException fw) \<and> status_code c = Some k"
    using assms(2) by (auto simp: HTTPUnprocessableEntity_def split: if_splits)
  from find_exceptions_loop_entries[OF this em[unfolded find_exceptions_def]] em
  have first: "\<exists>em. find_exceptions fw = Inr em
            \<and> (\<forall>k c. em k = Some c \<longrightarrow>
                  issubclass c (HTTPException fw) \<and> status_code c = Some k)"
    by blast
  have second: "register fw em (Class c) = em
      \<and> find_exceptions_loop fw em (name # names) = find_exceptions_loop fw em names"
    if "attrs fw name = Some (Class c)" "status_code c = Some k" "em k = Some old"
      "issubclass c old" for em name names c k old
    using that by (simp add: register_subclass_skipped)
  from first second show ?thesis by blast
qed

theorem table_entries_match_their_key_witness:
  "find_exceptions sample_framework
     = Inr [422 \<mapsto> HTTPUnprocessableEntity sample_framework, 404 \<mapsto> sample_HTTPNotFound]
   \<and> issubclass sample_HTTPNotFound (HTTPException sample_framework)
   \<and> status_code sample_HTTPNotFound = Some 404
   \<and> register sample_framework
        [422 \<mapsto> HTTPUnprocessableEntity sample_framework, 404 \<mapsto> sample_HTTPNotFound]
        (Class sample_NotFoundPage)
      = [422 \<mapsto> HTTPUnprocessableEntity sample_framework, 404 \<mapsto> sample_HTTPNotFound]"
proof -
  have names: "\<forall>n \<in> set (exported sample_framework). attrs sample_framework n \<noteq> None"
    by (simp add: sample_framework_def)
  have base: "issubclass (HTTPClientError sample_framework) (HTTPException sample_framework)"
    by (simp add: sample_framework_def sample_HTTPClientError_def sample_HTTPException_def)
  have table: "find_exceptions sample_framework
     = Inr [422 \<mapsto> HTTPUnprocessableEntity sample_framework, 404 \<mapsto> sample_HTTPNotFound]"
    by (simp add: find_exceptions_def register_def sample_framework_def
        HTTPUnprocessableEntity_def sample_HTTPNotFound_def sample_NotFoundPage_def
        sample_HTTPClientError_def sample_HTTPException_def)
  have later: "attrs sample_framework ''NotFoundPage'' = Some (Class sample_NotFoundPage)
      \<and> status_code sample_NotFoundPage = Some 404
      \<and> [422 \<mapsto> HTTPUnprocessableEntity sample_framework, 404 \<mapsto> sample_HTTPNotFound] 404
          = Some sample_HTTPNotFound
      \<and> issubclass sample_NotFoundPage sample_HTTPNotFound"
    by (simp add: sample_framework_def sample_NotFoundPage_def sample_HTTPNotFound_def)
  note inst = table_entries_match_their_key[OF names base]
  from inst table have entries:
    "\<forall>k c. [422 \<mapsto> HTTPUnprocessableEntity sample_framework, 404 \<mapsto> sample_HTTPNotFound] k
        = Some c \<longrightarrow> issubclass c (HTTPException sample_framework) \<and> status_code c = Some k"
    by simp
  have "[422 \<mapsto> HTTPUnprocessableEntity sample_framework, 404 \<mapsto> sample_HTTPNotFound] 404
        = Some sample_HTTPNotFound"
    by simp
  with entries have found: "issubclass sample_HTTPNotFound (HTTPException sample_framework)
      \<and> status_code sample_HTTPNotFound = Some 404"
    by blast
  from inst later have skipped: "register sample_framework
        [422 \<mapsto> HTTPUnprocessableEntity sample_framework, 404 \<mapsto> sample_HTTPNotFound]
        (Class sample_NotFoundPage)
      = [422 \<mapsto> HTTPUnprocessableEntity sample_framework, 404 \<mapsto> sample_HTTPNotFound]"
    by blast
  from table found skipped show ?thesis by simp
qed

end
